(* ===== verification/Prelude.thy ===== *)
theory Prelude
  imports Main
begin

text \<open>
  Shared vocabulary of the development: the fact collections that the component
  theories fill, the names of the model's basic types, and the list lemmas the
  script models share. The scripts read their arguments from \<open>process.argv\<close>, an
  array of strings in which a missing index reads as \<open>undefined\<close>; \<open>nth_opt\<close> is
  that read, with \<open>None\<close> for \<open>undefined\<close>.
\<close>

named_theorems proc_simps "evaluation rules of the Node process monad"
named_theorems api_simps "evaluation rules of the Puppeteer API wrappers"

type_synonym argv = "string list"
type_synonym exit_code = int

fun nth_opt :: "'a list \<Rightarrow> nat \<Rightarrow> 'a option" where
  "nth_opt [] i = None"
| "nth_opt (x # xs) 0 = Some x"
| "nth_opt (x # xs) (Suc i) = nth_opt xs i"

text \<open>The same read by a numeral index, so that \<open>simp\<close> evaluates \<open>nth_opt argv 2\<close>.\<close>

lemma nth_opt_Cons_if [simp]: "nth_opt (x # xs) n = (if n = 0 then Some x else nth_opt xs (n - 1))"
  by (cases n) auto

lemma nth_opt_conv:"nth_opt xs i = (if i < length xs then Some (xs ! i) else None)"
  by (induction xs i rule: nth_opt.induct) auto

lemma nth_opt_None_iff [simp]: "nth_opt xs i = None \<longleftrightarrow> length xs \<le> i"
  by (simp add: nth_opt_conv)

lemma nth_opt_Some_iff: "nth_opt xs i = Some x \<longleftrightarrow> i < length xs \<and> xs ! i = x"
  by (auto simp: nth_opt_conv)

lemma nth_opt_drop [simp]: "nth_opt (drop n xs) i = nth_opt xs (n + i)"
  by (auto simp: nth_opt_conv)

lemma nth_opt_append_short [simp]:
  "i < length xs \<Longrightarrow> nth_opt (xs @ ys) i = nth_opt xs i"
  by (simp add: nth_opt_conv nth_append)

end
