(* ===== verification/Node_Runtime.thy ===== *)
theory Node_Runtime
  imports Prelude
begin

text \<open>
  The part of JavaScript and of the Node.js runtime that the two scripts rely on,
  written from the language's rules (these are not code of the repository):
  \<^item> values read from \<open>process.argv\<close>: \<open>undefined\<close> or a string, their truthiness
    (\<open>!url\<close>), the \<open>||\<close> default and the \<open>String\<close> coercion;
  \<^item> error objects and \<open>Error.prototype.toString\<close>;
  \<^item> the body of an \<open>async\<close> function as a state-passing computation whose outcome is
    a value, a thrown (rejected) error, or the end of the whole process by
    \<open>process.exit\<close>; \<open>await\<close> on a rejected promise is a throw;
  \<^item> \<open>try\<close>/\<open>catch\<close>/\<open>finally\<close> with the ECMAScript completion rules, where
    \<open>process.exit\<close> is no completion at all: the process ends at once and no
    \<open>finally\<close> block runs;
  \<^item> the settling of the top-level promise: a resolved promise lets the process end
    with code 0, a rejected one is an unhandled rejection, which Node (15 and later)
    reports on standard error and answers with exit code 1.
  Standard error is a list of lines: \<open>Text\<close> for what \<open>console.error\<close> writes,
  \<open>Uncaught\<close> for Node's report of an unhandled rejection (its exact text, the
  stack trace and the version banner, is not modelled).
\<close>

section \<open>Values\<close>

datatype js_err = JsError (err_name: string) (err_message: string)

text \<open>\<open>Error.prototype.toString\<close> (ECMAScript 20.5.3.4).\<close>

fun js_to_string :: "js_err \<Rightarrow> string" where
  "js_to_string (JsError n m) =
     (if n = [] then m else if m = [] then n else n @ '': '' @ m)"

text \<open>Truthiness of a value read from \<open>process.argv\<close>: \<open>undefined\<close> and \<open>''''\<close> are falsy.\<close>

fun js_truthy :: "string option \<Rightarrow> bool" where
  "js_truthy None = False"
| "js_truthy (Some s) = (s \<noteq> [])"

text \<open>\<open>a || d\<close> with a string default \<open>d\<close>.\<close>

fun js_or :: "string option \<Rightarrow> string \<Rightarrow> string" where
  "js_or None d = d"
| "js_or (Some s) d = (if s = [] then d else s)"

lemma js_or_nonempty [simp]: "d \<noteq> [] \<Longrightarrow> js_or v d \<noteq> []"
  by (cases v) auto

text \<open>\<open>String(v)\<close>: the string a value stands for where a string is passed on.\<close>

fun js_str :: "string option \<Rightarrow> string" where
  "js_str None = ''undefined''"
| "js_str (Some s) = s"

section \<open>The process monad\<close>

datatype 'a outcome = Ret 'a | Throw js_err | Exit exit_code

datatype out_line = Text string | Uncaught js_err

record node_state =
  stderr :: "out_line list"

type_synonym ('s, 'a) proc = "'s \<Rightarrow> 'a outcome \<times> 's"

definition ret :: "'a \<Rightarrow> ('s, 'a) proc" where
  "ret a s = (Ret a, s)"

definition pbind :: "('s, 'a) proc \<Rightarrow> ('a \<Rightarrow> ('s, 'b) proc) \<Rightarrow> ('s, 'b) proc" where
  "pbind m f s =
     (case m s of
        (Ret a, s') \<Rightarrow> f a s'
      | (Throw e, s') \<Rightarrow> (Throw e, s')
      | (Exit n, s') \<Rightarrow> (Exit n, s'))"

definition pthen :: "('s, 'a) proc \<Rightarrow> ('s, 'b) proc \<Rightarrow> ('s, 'b) proc" where
  "pthen m k = pbind m (\<lambda>_. k)"

definition console_error :: "string \<Rightarrow> ('x node_state_scheme, unit) proc" where
  "console_error msg s = (Ret (), s\<lparr>stderr := stderr s @ [Text msg]\<rparr>)"

definition process_exit :: "exit_code \<Rightarrow> ('s, 'a) proc" where
  "process_exit n s = (Exit n, s)"

text \<open>\<open>try { m } catch (e) { h e }\<close>: only a thrown error reaches the handler.\<close>

definition try_catch :: "('s, 'a) proc \<Rightarrow> (js_err \<Rightarrow> ('s, 'a) proc) \<Rightarrow> ('s, 'a) proc" where
  "try_catch m h s =
     (case m s of
        (Ret a, s') \<Rightarrow> (Ret a, s')
      | (Throw e, s') \<Rightarrow> h e s'
      | (Exit n, s') \<Rightarrow> (Exit n, s'))"

text \<open>
  \<open>try { m } finally { fin }\<close>: the block runs after a normal or a throw completion
  of \<open>m\<close>; a normal completion of the block keeps \<open>m\<close>'s completion, an abrupt one
  replaces it. After \<open>process.exit\<close> nothing runs.
\<close>

definition try_finally :: "('s, 'a) proc \<Rightarrow> ('s, unit) proc \<Rightarrow> ('s, 'a) proc" where
  "try_finally m fin s =
     (case m s of
        (Exit n, s') \<Rightarrow> (Exit n, s')
      | (c, s') \<Rightarrow>
          (case fin s' of
             (Ret _, s'') \<Rightarrow> (c, s'')
           | (Throw e, s'') \<Rightarrow> (Throw e, s'')
           | (Exit n, s'') \<Rightarrow> (Exit n, s'')))"

definition try_catch_finally ::
  "('s, 'a) proc \<Rightarrow> (js_err \<Rightarrow> ('s, 'a) proc) \<Rightarrow> ('s, unit) proc \<Rightarrow> ('s, 'a) proc" where
  "try_catch_finally m h fin = try_finally (try_catch m h) fin"

text \<open>
  Running the body of the top-level \<open>(async () => { ... })()\<close> to the end of the
  process: the exit code and the final state.
\<close>

definition run_main ::
  "('x node_state_scheme, unit) proc \<Rightarrow> 'x node_state_scheme \<Rightarrow> exit_code \<times> 'x node_state_scheme" where
  "run_main m s =
     (case m s of
        (Ret _, s') \<Rightarrow> (0, s')
      | (Throw e, s') \<Rightarrow> (1, s'\<lparr>stderr := stderr s' @ [Uncaught e]\<rparr>)
      | (Exit n, s') \<Rightarrow> (n, s'))"

section \<open>Evaluation rules\<close>

lemmas [proc_simps] = ret_def pthen_def console_error_def process_exit_def

lemma pbind_Ret [proc_simps]: "m s = (Ret a, s') \<Longrightarrow> pbind m f s = f a s'"
  by (simp add: pbind_def)

lemma pbind_Throw [proc_simps]: "m s = (Throw e, s') \<Longrightarrow> pbind m f s = (Throw e, s')"
  by (simp add: pbind_def)

lemma pbind_Exit [proc_simps]: "m s = (Exit n, s') \<Longrightarrow> pbind m f s = (Exit n, s')"
  by (simp add: pbind_def)

lemma pbind_ret [proc_simps]: "pbind (ret a) f = f a"
  by (simp add: pbind_def ret_def fun_eq_iff)

lemma pbind_exit [proc_simps]: "pbind (process_exit n) f = process_exit n"
  by (simp add: pbind_def process_exit_def fun_eq_iff)

lemma pbind_assoc: "pbind (pbind m f) g = pbind m (\<lambda>a. pbind (f a) g)"
  by (auto simp: pbind_def fun_eq_iff split: prod.splits outcome.splits)

lemma run_main_Ret [proc_simps]: "m s = (Ret a, s') \<Longrightarrow> run_main m s = (0, s')"
  by (simp add: run_main_def)

lemma run_main_Throw [proc_simps]:
  "m s = (Throw e, s') \<Longrightarrow> run_main m s = (1, s'\<lparr>stderr := stderr s' @ [Uncaught e]\<rparr>)"
  by (simp add: run_main_def)

lemma run_main_Exit [proc_simps]: "m s = (Exit n, s') \<Longrightarrow> run_main m s = (n, s')"
  by (simp add: run_main_def)

text \<open>What a run of the whole process can have been: one rule per outcome of the body.\<close>

lemma run_main_E:
  assumes "run_main m s = (c, s')"
  obtains (ret) u where "m s = (Ret u, s')" "c = 0"
  | (throw) e s1 where "m s = (Throw e, s1)" "c = 1" "s' = s1\<lparr>stderr := stderr s1 @ [Uncaught e]\<rparr>"
  | (exit) "m s = (Exit c, s')"
  using assms by (auto simp: run_main_def split: prod.splits outcome.splits)

text \<open>The three completions of a \<open>try\<close>/\<open>catch\<close>/\<open>finally\<close> statement.\<close>

lemma try_catch_finally_Ret:
  "m s = (Ret a, s1) \<Longrightarrow> fin s1 = (Ret u, s2) \<Longrightarrow>
   try_catch_finally m h fin s = (Ret a, s2)"
  by (simp add: try_catch_finally_def try_finally_def try_catch_def)

lemma try_catch_finally_Throw_Exit:
  "m s = (Throw e, s1) \<Longrightarrow> h e s1 = (Exit n, s2) \<Longrightarrow>
   try_catch_finally m h fin s = (Exit n, s2)"
  by (simp add: try_catch_finally_def try_finally_def try_catch_def)

lemma try_catch_finally_Throw_Ret:
  "m s = (Throw e, s1) \<Longrightarrow> h e s1 = (Ret a, s2) \<Longrightarrow> fin s2 = (Ret u, s3) \<Longrightarrow>
   try_catch_finally m h fin s = (Ret a, s3)"
  by (simp add: try_catch_finally_def try_finally_def try_catch_def)

lemma try_catch_finally_fin_abrupt:
  "m s = (Ret a, s1) \<Longrightarrow> fin s1 = (Throw e, s2) \<Longrightarrow>
   try_catch_finally m h fin s = (Throw e, s2)"
  by (simp add: try_catch_finally_def try_finally_def try_catch_def)

lemma pbind_console_error [proc_simps]:
  "pbind (console_error msg) f s = f () (s\<lparr>stderr := stderr s @ [Text msg]\<rparr>)"
  by (simp add: pbind_def console_error_def)

text \<open>
  How a \<open>try\<close>/\<open>catch\<close> and a \<open>try\<close>/\<open>finally\<close> can have completed: the rules by
  which a run through such a statement is taken apart.
\<close>

lemma try_catch_E:
  assumes "try_catch m h s = (r, s')"
  obtains (ret) a where "m s = (Ret a, s')" "r = Ret a"
  | (exit) n where "m s = (Exit n, s')" "r = Exit n"
  | (caught) e s1 where "m s = (Throw e, s1)" "h e s1 = (r, s')"
  using assms by (auto simp: try_catch_def split: prod.splits outcome.splits)

lemma try_finally_E:
  assumes "try_finally m fin s = (r, s')"
  obtains (exit) n where "m s = (Exit n, s')" "r = Exit n"
  | (fin_ret) c s1 u where "m s = (c, s1)" "\<forall>n. c \<noteq> Exit n" "fin s1 = (Ret u, s')" "r = c"
  | (fin_throw) c s1 e where "m s = (c, s1)" "\<forall>n. c \<noteq> Exit n" "fin s1 = (Throw e, s')" "r = Throw e"
  | (fin_exit) c s1 n where "m s = (c, s1)" "\<forall>n. c \<noteq> Exit n" "fin s1 = (Exit n, s')" "r = Exit n"
  using assms by (auto simp: try_finally_def split: prod.splits outcome.splits)

lemmas try_elims = try_catch_E try_finally_E

lemmas try_catch_finally_simps [proc_simps] =
  try_catch_finally_Ret try_catch_finally_Throw_Exit
  try_catch_finally_Throw_Ret try_catch_finally_fin_abrupt

end
