(* ===== verification/Puppeteer_Api.thy ===== *)
theory Puppeteer_Api
  imports Node_Runtime
begin

text \<open>
  The interface between the scripts and the \<open>puppeteer\<close> library. The library
  (browser launch, pages, navigation, rendering, file writes) is not modelled: it is
  a record of five operations over a state \<open>'b\<close> of the caller's choice, each of
  which either returns or rejects with an error. Everything proved of the scripts
  holds for every such backend. The client state extends the Node state with the
  backend's state and a log of every API call with its result, in order, so that the
  order of the calls and the handles they pass are observable.
\<close>

section \<open>Handles, options, calls\<close>

datatype browser = Browser nat
datatype page = Page nat

text \<open>\<open>headless\<close> takes \<open>'new'\<close>, \<open>'shell'\<close> or a boolean.\<close>

datatype headless_mode = Headless_New | Headless_Shell | Headless_Bool bool

record launch_opts =
  headless :: "headless_mode option"
  launch_args :: "string list"

text \<open>\<open>puppeteer.launch()\<close> with no argument: every option at its default.\<close>

definition default_launch_opts :: launch_opts where
  "default_launch_opts = \<lparr>headless = None, launch_args = []\<rparr>"

datatype wait_event = Load | DOMContentLoaded | Networkidle0 | Networkidle2

record goto_opts =
  wait_until :: wait_event

record shot_opts =
  shot_path :: string
  full_page :: bool

datatype call =
    Launch launch_opts
  | NewPage browser
  | Goto page string goto_opts
  | Screenshot page shot_opts
  | Close browser

datatype result = RBrowser browser | RPage page | RDone | RFail js_err

type_synonym api_log = "(call \<times> result) list"

section \<open>The backend and the client state\<close>

record 'b puppeteer =
  pp_launch :: "launch_opts \<Rightarrow> 'b \<Rightarrow> (js_err + browser) \<times> 'b"
  pp_new_page :: "browser \<Rightarrow> 'b \<Rightarrow> (js_err + page) \<times> 'b"
  pp_goto :: "page \<Rightarrow> string \<Rightarrow> goto_opts \<Rightarrow> 'b \<Rightarrow> (js_err + unit) \<times> 'b"
  pp_screenshot :: "page \<Rightarrow> shot_opts \<Rightarrow> 'b \<Rightarrow> (js_err + unit) \<times> 'b"
  pp_close :: "browser \<Rightarrow> 'b \<Rightarrow> (js_err + unit) \<times> 'b"

record 'b client_state = node_state +
  api_log :: api_log
  backend :: 'b

type_synonym ('b, 'a) client = "('b client_state, 'a) proc"

text \<open>
  One awaited API call: the backend operation runs on the backend state, the call
  and its result are logged, and a rejection becomes a thrown error.
\<close>

definition api_call :: "call \<Rightarrow> ('b \<Rightarrow> (js_err + 'a) \<times> 'b) \<Rightarrow> ('a \<Rightarrow> result) \<Rightarrow> ('b, 'a) client" where
  "api_call c op res s =
     (case op (backend s) of
        (Inl e, b) \<Rightarrow> (Throw e, s\<lparr>api_log := api_log s @ [(c, RFail e)], backend := b\<rparr>)
      | (Inr a, b) \<Rightarrow> (Ret a, s\<lparr>api_log := api_log s @ [(c, res a)], backend := b\<rparr>))"

definition puppeteer_launch :: "'b puppeteer \<Rightarrow> launch_opts \<Rightarrow> ('b, browser) client" where
  "puppeteer_launch bk opts = api_call (Launch opts) (pp_launch bk opts) RBrowser"

definition browser_new_page :: "'b puppeteer \<Rightarrow> browser \<Rightarrow> ('b, page) client" where
  "browser_new_page bk br = api_call (NewPage br) (pp_new_page bk br) RPage"

definition page_goto :: "'b puppeteer \<Rightarrow> page \<Rightarrow> string \<Rightarrow> goto_opts \<Rightarrow> ('b, unit) client" where
  "page_goto bk p url opts = api_call (Goto p url opts) (pp_goto bk p url opts) (\<lambda>_. RDone)"

definition page_screenshot :: "'b puppeteer \<Rightarrow> page \<Rightarrow> shot_opts \<Rightarrow> ('b, unit) client" where
  "page_screenshot bk p opts = api_call (Screenshot p opts) (pp_screenshot bk p opts) (\<lambda>_. RDone)"

definition browser_close :: "'b puppeteer \<Rightarrow> browser \<Rightarrow> ('b, unit) client" where
  "browser_close bk br = api_call (Close br) (pp_close bk br) (\<lambda>_. RDone)"

section \<open>Reading the log\<close>

datatype stage = SLaunch | SNewPage | SGoto | SScreenshot | SClose

fun stage_of :: "call \<Rightarrow> stage" where
  "stage_of (Launch _) = SLaunch"
| "stage_of (NewPage _) = SNewPage"
| "stage_of (Goto _ _ _) = SGoto"
| "stage_of (Screenshot _ _) = SScreenshot"
| "stage_of (Close _) = SClose"

fun res_ok :: "result \<Rightarrow> bool" where
  "res_ok (RFail _) = False"
| "res_ok _ = True"

text \<open>How many times the log releases a browser, and whether a stage failed in it.\<close>

definition close_count :: "api_log \<Rightarrow> nat" where
  "close_count log = length (filter (\<lambda>(c, r). stage_of c = SClose) log)"

definition failed_at :: "stage \<Rightarrow> api_log \<Rightarrow> bool" where
  "failed_at st log = list_ex (\<lambda>(c, r). stage_of c = st \<and> \<not> res_ok r) log"

section \<open>Evaluation rules\<close>

lemma api_call_Inl [api_simps]:
  "op (backend s) = (Inl e, b) \<Longrightarrow>
   api_call c op res s = (Throw e, s\<lparr>api_log := api_log s @ [(c, RFail e)], backend := b\<rparr>)"
  by (simp add: api_call_def)

lemma api_call_Inr [api_simps]:
  "op (backend s) = (Inr a, b) \<Longrightarrow>
   api_call c op res s = (Ret a, s\<lparr>api_log := api_log s @ [(c, res a)], backend := b\<rparr>)"
  by (simp add: api_call_def)

text \<open>
  An awaited call followed by the rest of the body, and the two ways such a step
  can have gone: the rules by which the script theories take a run apart.
\<close>

lemma pbind_api_call [api_simps]:
  "pbind (api_call c op res) f s =
     (case op (backend s) of
        (Inl e, b) \<Rightarrow> (Throw e, s\<lparr>api_log := api_log s @ [(c, RFail e)], backend := b\<rparr>)
      | (Inr a, b) \<Rightarrow> f a (s\<lparr>api_log := api_log s @ [(c, res a)], backend := b\<rparr>))"
  by (auto simp: pbind_def api_call_def split: prod.splits sum.splits)

lemma pbind_api_call_E:
  assumes "pbind (api_call c op res) f s = (r, s')"
  obtains (fail) e b where "op (backend s) = (Inl e, b)" "r = Throw e"
      "s' = s\<lparr>api_log := api_log s @ [(c, RFail e)], backend := b\<rparr>"
  | (ok) a b where "op (backend s) = (Inr a, b)"
      "f a (s\<lparr>api_log := api_log s @ [(c, res a)], backend := b\<rparr>) = (r, s')"
  using assms by (auto simp: pbind_api_call split: prod.splits sum.splits)

lemma api_call_E:
  assumes "api_call c op res s = (r, s')"
  obtains (fail) e b where "op (backend s) = (Inl e, b)" "r = Throw e"
      "s' = s\<lparr>api_log := api_log s @ [(c, RFail e)], backend := b\<rparr>"
  | (ok) a b where "op (backend s) = (Inr a, b)" "r = Ret a"
      "s' = s\<lparr>api_log := api_log s @ [(c, res a)], backend := b\<rparr>"
  using assms by (auto simp: api_call_def split: prod.splits sum.splits)

lemmas api_call_elims = pbind_api_call_E api_call_E

lemma api_call_stderr: "api_call c op res s = (r, s') \<Longrightarrow> stderr s' = stderr s"
  by (auto simp: api_call_def split: prod.splits sum.splits)

lemma api_call_log:
  "api_call c op res s = (r, s') \<Longrightarrow> \<exists>x. api_log s' = api_log s @ [(c, x)]"
  by (auto simp: api_call_def split: prod.splits sum.splits)

lemma api_call_no_exit: "api_call c op res s \<noteq> (Exit n, s')"
  by (auto simp: api_call_def split: prod.splits sum.splits)

lemmas api_wrappers [api_simps] =
  puppeteer_launch_def browser_new_page_def page_goto_def page_screenshot_def browser_close_def

lemma close_count_append [simp]: "close_count (xs @ ys) = close_count xs + close_count ys"
  by (simp add: close_count_def)

lemma close_count_Cons [simp]:
  "close_count ((c, r) # log) = (if stage_of c = SClose then Suc (close_count log) else close_count log)"
  by (simp add: close_count_def)

lemma close_count_Nil [simp]: "close_count [] = 0"
  by (simp add: close_count_def)

lemma failed_at_append [simp]: "failed_at st (xs @ ys) \<longleftrightarrow> failed_at st xs \<or> failed_at st ys"
  by (simp add: failed_at_def)

lemma failed_at_Cons [simp]:
  "failed_at st ((c, r) # log) \<longleftrightarrow> (stage_of c = st \<and> \<not> res_ok r) \<or> failed_at st log"
  by (simp add: failed_at_def)

lemma failed_at_Nil [simp]: "\<not> failed_at st []"
  by (simp add: failed_at_def)

end
