(* ===== verification/Mock_Browser.thy ===== *)
theory Mock_Browser
  imports Puppeteer_Api
begin

text \<open>
  The mock backend of the spec's testable properties (section 8): a browser stand-in
  that hands out numbered browsers and pages, remembers which browsers are open and
  which browser each page belongs to and which URL it shows, writes a screenshot as a
  file whose content is the URL it shows, and rejects the call of one chosen stage
  with an injected error. Like the library, it rejects \<open>goto\<close> and
  \<open>screenshot\<close> on a page whose browser is no longer open (target closed). It is
  the concrete input at which the theorems about the scripts are evaluated; it is a
  test double, not code of the repository.
\<close>

record mock =
  fail_stage :: "stage option"
  next_id :: nat
  open_browsers :: "nat list"
  page_browser :: "nat \<rightharpoonup> nat"
  page_url :: "nat \<rightharpoonup> string"
  files :: "string \<rightharpoonup> string"

definition mock_error :: "stage \<Rightarrow> js_err" where
  "mock_error st = JsError ''Error'' (case st of
      SLaunch \<Rightarrow> ''Failed to launch the browser process''
    | SNewPage \<Rightarrow> ''Protocol error: Target closed''
    | SGoto \<Rightarrow> ''net::ERR_NAME_NOT_RESOLVED''
    | SScreenshot \<Rightarrow> ''ENOENT: no such file or directory''
    | SClose \<Rightarrow> ''Connection closed'')"

definition mock_target_closed :: js_err where
  "mock_target_closed = JsError ''Error'' ''Protocol error: Session closed. Most likely the page has been closed.''"

definition mock_page_open :: "mock \<Rightarrow> nat \<Rightarrow> bool" where
  "mock_page_open m i \<longleftrightarrow> (case page_browser m i of None \<Rightarrow> False | Some b \<Rightarrow> b \<in> set (open_browsers m))"

definition mock_fails :: "stage \<Rightarrow> mock \<Rightarrow> bool" where
  "mock_fails st m \<longleftrightarrow> fail_stage m = Some st"

definition mock_launch :: "launch_opts \<Rightarrow> mock \<Rightarrow> (js_err + browser) \<times> mock" where
  "mock_launch opts m =
     (if mock_fails SLaunch m then (Inl (mock_error SLaunch), m)
      else (Inr (Browser (next_id m)),
            m\<lparr>next_id := Suc (next_id m), open_browsers := next_id m # open_browsers m\<rparr>))"

fun mock_new_page :: "browser \<Rightarrow> mock \<Rightarrow> (js_err + page) \<times> mock" where
  "mock_new_page (Browser i) m =
     (if mock_fails SNewPage m \<or> i \<notin> set (open_browsers m) then (Inl (mock_error SNewPage), m)
      else (Inr (Page (next_id m)),
            m\<lparr>next_id := Suc (next_id m), page_browser := (page_browser m)(next_id m \<mapsto> i),
              page_url := (page_url m)(next_id m \<mapsto> ''about:blank'')\<rparr>))"

fun mock_goto :: "page \<Rightarrow> string \<Rightarrow> goto_opts \<Rightarrow> mock \<Rightarrow> (js_err + unit) \<times> mock" where
  "mock_goto (Page i) url opts m =
     (if \<not> mock_page_open m i then (Inl mock_target_closed, m)
      else if mock_fails SGoto m then (Inl (mock_error SGoto), m)
      else (Inr (), m\<lparr>page_url := (page_url m)(i \<mapsto> url)\<rparr>))"

fun mock_screenshot :: "page \<Rightarrow> shot_opts \<Rightarrow> mock \<Rightarrow> (js_err + unit) \<times> mock" where
  "mock_screenshot (Page i) opts m =
     (if \<not> mock_page_open m i then (Inl mock_target_closed, m)
      else if mock_fails SScreenshot m then (Inl (mock_error SScreenshot), m)
      else (Inr (), m\<lparr>files := (files m)(shot_path opts \<mapsto>
                       (case page_url m i of Some u \<Rightarrow> u | None \<Rightarrow> ''about:blank''))\<rparr>))"

fun mock_close :: "browser \<Rightarrow> mock \<Rightarrow> (js_err + unit) \<times> mock" where
  "mock_close (Browser i) m =
     (if mock_fails SClose m then (Inl (mock_error SClose), m)
      else (Inr (), m\<lparr>open_browsers := removeAll i (open_browsers m)\<rparr>))"

definition mock_backend :: "mock puppeteer" where
  "mock_backend =
     \<lparr>pp_launch = mock_launch, pp_new_page = mock_new_page, pp_goto = mock_goto,
      pp_screenshot = mock_screenshot, pp_close = mock_close\<rparr>"

definition mock_init :: "stage option \<Rightarrow> mock" where
  "mock_init f = \<lparr>fail_stage = f, next_id = 0, open_browsers = [],
     page_browser = Map.empty, page_url = Map.empty, files = Map.empty\<rparr>"

definition client_init :: "'b \<Rightarrow> 'b client_state" where
  "client_init b = \<lparr>stderr = [], api_log = [], backend = b\<rparr>"

lemmas mock_simps =
  mock_backend_def mock_init_def client_init_def mock_launch_def mock_fails_def mock_error_def
  mock_page_open_def

end
