(* ===== verification/Screenshot.thy ===== *)
theory Screenshot
  imports Mock_Browser
begin

text \<open>
  \<open>src/website-screenshot/screenshot.js\<close>: reads the URL and an optional output
  path (default \<open>screenshot.png\<close>), prints a usage line and exits with 1 when the URL
  is missing or empty, then launches a headless browser with the sandbox disabled,
  opens a page, navigates to the URL waiting for \<open>networkidle2\<close>, saves a full-page
  screenshot and closes the browser. There is no \<open>try\<close>: a rejected call ends the
  async function, and the process ends on Node's unhandled-rejection report.
\<close>

section \<open>Definitions\<close>

definition screenshot_args :: "argv \<Rightarrow> string option \<times> string" where
  "screenshot_args argv = (nth_opt argv 2, js_or (nth_opt argv 3) ''screenshot.png'')"

definition screenshot_usage :: string where
  "screenshot_usage = ''Usage: node screenshot.js <url> [output]''"

definition screenshot_launch_opts :: launch_opts where
  "screenshot_launch_opts =
     \<lparr>headless = Some Headless_New,
      launch_args = [''--no-sandbox'', ''--disable-setuid-sandbox'']\<rparr>"

definition screenshot_main :: "'b puppeteer \<Rightarrow> argv \<Rightarrow> ('b, unit) client" where
  "screenshot_main bk argv =
     (case screenshot_args argv of (url, output) \<Rightarrow>
       pthen
         (if \<not> js_truthy url
          then pthen (console_error screenshot_usage) (process_exit 1)
          else ret ())
         (pbind (puppeteer_launch bk screenshot_launch_opts) (\<lambda>browser.
          pbind (browser_new_page bk browser) (\<lambda>page.
          pthen (page_goto bk page (js_str url) \<lparr>wait_until = Networkidle2\<rparr>)
          (pthen (page_screenshot bk page \<lparr>shot_path = output, full_page = True\<rparr>)
          (browser_close bk browser))))))"

definition screenshot_run :: "'b puppeteer \<Rightarrow> argv \<Rightarrow> 'b client_state \<Rightarrow> exit_code \<times> 'b client_state" where
  "screenshot_run bk argv = run_main (screenshot_main bk argv)"

section \<open>How a run can go\<close>

lemma screenshot_main_valid:
  "js_truthy (nth_opt argv 2) \<Longrightarrow> screenshot_main bk argv =
     pbind (puppeteer_launch bk screenshot_launch_opts) (\<lambda>browser.
     pbind (browser_new_page bk browser) (\<lambda>page.
     pbind (page_goto bk page (js_str (nth_opt argv 2)) \<lparr>wait_until = Networkidle2\<rparr>) (\<lambda>_.
     pbind (page_screenshot bk page
              \<lparr>shot_path = js_or (nth_opt argv 3) ''screenshot.png'', full_page = True\<rparr>) (\<lambda>_.
     browser_close bk browser))))"
  by (simp add: screenshot_main_def screenshot_args_def proc_simps)

text \<open>
  Every run of the script is one of seven: the usage error, a rejection at one of
  the five awaited calls, or success. Each case gives the exit code, the calls made
  with their results, and what was written to standard error.
\<close>

lemma screenshot_run_cases [consumes 1,
    case_names usage launch_fail page_fail goto_fail shot_fail close_fail success]:
  assumes run: "screenshot_run bk argv s = (c, s')"
  obtains
    (usage) "\<not> js_truthy (nth_opt argv 2)" "c = 1"
      "s' = s\<lparr>stderr := stderr s @ [Text screenshot_usage]\<rparr>"
  | (launch_fail) e where "js_truthy (nth_opt argv 2)" "c = 1"
      "api_log s' = api_log s @ [(Launch screenshot_launch_opts, RFail e)]"
      "stderr s' = stderr s @ [Uncaught e]"
  | (page_fail) b e where "js_truthy (nth_opt argv 2)" "c = 1"
      "api_log s' = api_log s @ [(Launch screenshot_launch_opts, RBrowser b), (NewPage b, RFail e)]"
      "stderr s' = stderr s @ [Uncaught e]"
  | (goto_fail) b p e where "js_truthy (nth_opt argv 2)" "c = 1"
      "api_log s' = api_log s @ [(Launch screenshot_launch_opts, RBrowser b), (NewPage b, RPage p),
         (Goto p (js_str (nth_opt argv 2)) \<lparr>wait_until = Networkidle2\<rparr>, RFail e)]"
      "stderr s' = stderr s @ [Uncaught e]"
  | (shot_fail) b p e where "js_truthy (nth_opt argv 2)" "c = 1"
      "api_log s' = api_log s @ [(Launch screenshot_launch_opts, RBrowser b), (NewPage b, RPage p),
         (Goto p (js_str (nth_opt argv 2)) \<lparr>wait_until = Networkidle2\<rparr>, RDone),
         (Screenshot p \<lparr>shot_path = js_or (nth_opt argv 3) ''screenshot.png'', full_page = True\<rparr>,
          RFail e)]"
      "stderr s' = stderr s @ [Uncaught e]"
  | (close_fail) b p e where "js_truthy (nth_opt argv 2)" "c = 1"
      "api_log s' = api_log s @ [(Launch screenshot_launch_opts, RBrowser b), (NewPage b, RPage p),
         (Goto p (js_str (nth_opt argv 2)) \<lparr>wait_until = Networkidle2\<rparr>, RDone),
         (Screenshot p \<lparr>shot_path = js_or (nth_opt argv 3) ''screenshot.png'', full_page = True\<rparr>,
          RDone),
         (Close b, RFail e)]"
      "stderr s' = stderr s @ [Uncaught e]"
  | (success) b p where "js_truthy (nth_opt argv 2)" "c = 0"
      "api_log s' = api_log s @ [(Launch screenshot_launch_opts, RBrowser b), (NewPage b, RPage p),
         (Goto p (js_str (nth_opt argv 2)) \<lparr>wait_until = Networkidle2\<rparr>, RDone),
         (Screenshot p \<lparr>shot_path = js_or (nth_opt argv 3) ''screenshot.png'', full_page = True\<rparr>,
          RDone),
         (Close b, RDone)]"
      "stderr s' = stderr s"
proof (cases "js_truthy (nth_opt argv 2)")
  case False
  with run show ?thesis
    by (intro usage) (simp_all add: screenshot_run_def screenshot_main_def screenshot_args_def proc_simps)
next
  case True
  from run show ?thesis
    unfolding screenshot_run_def screenshot_main_valid [OF True] api_wrappers
    by (elim run_main_E api_call_elims) (simp_all add: True that)
qed

text \<open>Evaluating a run on a concrete backend and command line.\<close>

lemmas screenshot_eval =
  screenshot_run_def screenshot_main_def screenshot_args_def screenshot_launch_opts_def
  run_main_def api_simps proc_simps mock_simps

section \<open>Properties\<close>

text \<open>
  C1. When the URL argument is missing or empty, the script writes its usage line to
  standard error and exits with code 1 before any call to the browser library: the
  call log and the backend are untouched.
\<close>

theorem screenshot_usage_error:
  "\<not> js_truthy (nth_opt argv 2) \<Longrightarrow>
   screenshot_run bk argv s = (1, s\<lparr>stderr := stderr s @ [Text screenshot_usage]\<rparr>)"
  by (simp add: screenshot_run_def screenshot_main_def screenshot_args_def proc_simps)

theorem screenshot_usage_error_witness:
  "\<not> js_truthy (nth_opt [''node'', ''screenshot.js'', '''', ''out.png''] 2) \<and>
   screenshot_run mock_backend [''node'', ''screenshot.js'', '''', ''out.png''] (client_init (mock_init None)) =
     (1, (client_init (mock_init None))\<lparr>stderr := [Text screenshot_usage]\<rparr>)"
  using screenshot_usage_error [of "[''node'', ''screenshot.js'', '''', ''out.png'']" mock_backend
      "client_init (mock_init None)"]
  by (simp add: client_init_def)

text \<open>
  C2. A run that exits with code 0 made exactly five calls, in this order, each of
  which succeeded: launch with the hard-coded options, open a page on the launched
  browser, navigate that page to the URL waiting for \<open>networkidle2\<close>, save a
  full-page screenshot of it to the output path, close the same browser. It wrote
  nothing to standard error, and the URL was present and non-empty.
\<close>

theorem screenshot_success_log:
  "screenshot_run bk argv s = (0, s') \<Longrightarrow>
   \<exists>b p. api_log s' = api_log s @
     [(Launch screenshot_launch_opts, RBrowser b), (NewPage b, RPage p),
      (Goto p (js_str (nth_opt argv 2)) \<lparr>wait_until = Networkidle2\<rparr>, RDone),
      (Screenshot p \<lparr>shot_path = js_or (nth_opt argv 3) ''screenshot.png'', full_page = True\<rparr>, RDone),
      (Close b, RDone)]
   \<and> stderr s' = stderr s \<and> js_truthy (nth_opt argv 2)"
  by (cases rule: screenshot_run_cases) auto

theorem screenshot_success_log_witness:
  "\<exists>s'. screenshot_run mock_backend [''node'', ''screenshot.js'', ''https://example.com'']
          (client_init (mock_init None)) = (0, s') \<and>
     (\<exists>b p. api_log s' =
       [(Launch screenshot_launch_opts, RBrowser b), (NewPage b, RPage p),
        (Goto p ''https://example.com'' \<lparr>wait_until = Networkidle2\<rparr>, RDone),
        (Screenshot p \<lparr>shot_path = ''screenshot.png'', full_page = True\<rparr>, RDone),
        (Close b, RDone)])"
proof -
  obtain c s' where run: "screenshot_run mock_backend [''node'', ''screenshot.js'', ''https://example.com'']
      (client_init (mock_init None)) = (c, s')"
    by (cases "screenshot_run mock_backend [''node'', ''screenshot.js'', ''https://example.com'']
      (client_init (mock_init None))")
  have "c = 0"
    using run by (simp add: screenshot_eval)
  with run screenshot_success_log [of mock_backend "[''node'', ''screenshot.js'', ''https://example.com'']"
      "client_init (mock_init None)" s']
  show ?thesis by (simp add: client_init_def)
qed

text \<open>
  C3. The script does not release the browser when navigation, capture or opening
  the page fails: whenever one of these calls is rejected, the run exits with code 1
  and no close call is made (the rejection ends the async function before
  \<open>browser.close()\<close>).
\<close>

theorem screenshot_no_release_on_failure:
  "screenshot_run bk argv s = (c, s') \<Longrightarrow> api_log s' = api_log s @ new \<Longrightarrow>
   failed_at SNewPage new \<or> failed_at SGoto new \<or> failed_at SScreenshot new \<Longrightarrow>
   c = 1 \<and> close_count new = 0"
  by (cases rule: screenshot_run_cases) auto

theorem screenshot_no_release_on_failure_witness:
  "failed_at SGoto (api_log (snd (screenshot_run mock_backend
       [''node'', ''screenshot.js'', ''https://bad.invalid'', ''out.png''] (client_init (mock_init (Some SGoto)))))) \<and>
   fst (screenshot_run mock_backend
       [''node'', ''screenshot.js'', ''https://bad.invalid'', ''out.png''] (client_init (mock_init (Some SGoto)))) = 1 \<and>
   close_count (api_log (snd (screenshot_run mock_backend
       [''node'', ''screenshot.js'', ''https://bad.invalid'', ''out.png''] (client_init (mock_init (Some SGoto)))))) = 0"
  using screenshot_no_release_on_failure [of mock_backend
      "[''node'', ''screenshot.js'', ''https://bad.invalid'', ''out.png'']"
      "client_init (mock_init (Some SGoto))"]
  by (simp add: screenshot_eval)

text \<open>
  C4. The exit code is 0 or 1, and it is 0 exactly when the script made at least one
  call and every call it made succeeded.
\<close>

theorem screenshot_exit_code:
  "screenshot_run bk argv s = (c, s') \<Longrightarrow> api_log s' = api_log s @ new \<Longrightarrow>
   (c = 0 \<or> c = 1) \<and> (c = 0 \<longleftrightarrow> new \<noteq> [] \<and> list_all (\<lambda>(_, r). res_ok r) new)"
  by (cases rule: screenshot_run_cases) auto

theorem screenshot_exit_code_witness:
  "fst (screenshot_run mock_backend
       [''node'', ''screenshot.js'', ''https://example.com''] (client_init (mock_init (Some SClose)))) = 1 \<and>
   \<not> list_all (\<lambda>(_, r). res_ok r) (api_log (snd (screenshot_run mock_backend
       [''node'', ''screenshot.js'', ''https://example.com''] (client_init (mock_init (Some SClose))))))"
  using screenshot_exit_code [of mock_backend
      "[''node'', ''screenshot.js'', ''https://example.com'']"
      "client_init (mock_init (Some SClose))"]
  by (simp add: screenshot_eval)

text \<open>
  C5. A run releases a browser at most once, and only the browser its own launch
  call returned: the browser instance is owned by the one invocation.
\<close>

theorem screenshot_release_at_most_once:
  "screenshot_run bk argv s = (c, s') \<Longrightarrow> api_log s' = api_log s @ new \<Longrightarrow>
   close_count new \<le> 1 \<and>
   (\<forall>b r. (Close b, r) \<in> set new \<longrightarrow> (Launch screenshot_launch_opts, RBrowser b) \<in> set new)"
  by (cases rule: screenshot_run_cases) auto

theorem screenshot_release_at_most_once_witness:
  "close_count (api_log (snd (screenshot_run mock_backend
       [''node'', ''screenshot.js'', ''https://example.com''] (client_init (mock_init None))))) = 1 \<and>
   (Close (Browser 0), RDone) \<in> set (api_log (snd (screenshot_run mock_backend
       [''node'', ''screenshot.js'', ''https://example.com''] (client_init (mock_init None))))) \<and>
   (Launch screenshot_launch_opts, RBrowser (Browser 0)) \<in> set (api_log (snd (screenshot_run mock_backend
       [''node'', ''screenshot.js'', ''https://example.com''] (client_init (mock_init None)))))"
  using screenshot_release_at_most_once [of mock_backend
      "[''node'', ''screenshot.js'', ''https://example.com'']" "client_init (mock_init None)"]
  by (simp add: screenshot_eval)

text \<open>
  C6. The output path the script passes on is the fourth command-line argument when
  it is present and non-empty, and \<open>screenshot.png\<close> otherwise; it is never empty.
\<close>

theorem screenshot_output_default:
  "snd (screenshot_args argv) =
     (if 3 < length argv \<and> argv ! 3 \<noteq> [] then argv ! 3 else ''screenshot.png'') \<and>
   snd (screenshot_args argv) \<noteq> []"
  by (auto simp: screenshot_args_def nth_opt_conv)

end
