(* ===== verification/Puppeteer_Screenshot.thy ===== *)
theory Puppeteer_Screenshot
  imports Mock_Browser
begin

text \<open>
  \<open>src/example-scripts/webscrape/puppeteer_screenshot.js\<close>: destructures the URL
  and the output path from \<open>process.argv.slice(2)\<close>, both required; prints a usage
  line and exits with 1 when either is missing or empty; launches a browser with the
  default options (outside the \<open>try\<close>), then in a \<open>try\<close> opens a page, navigates
  waiting for \<open>networkidle2\<close> and saves a full-page screenshot; the \<open>catch\<close> prints
  the error's \<open>toString()\<close> and calls \<open>process.exit(1)\<close>; the \<open>finally\<close> closes the
  browser. Because \<open>process.exit\<close> ends the process at once, the \<open>finally\<close> block
  runs only when the \<open>try\<close> block succeeded.
\<close>

section \<open>Definitions\<close>

definition puppeteer_screenshot_args :: "argv \<Rightarrow> string option \<times> string option" where
  "puppeteer_screenshot_args argv = (nth_opt (drop 2 argv) 0, nth_opt (drop 2 argv) 1)"

definition puppeteer_screenshot_usage :: string where
  "puppeteer_screenshot_usage = ''Usage: node puppeteer_screenshot.js <url> <output>''"

definition puppeteer_screenshot_main :: "'b puppeteer \<Rightarrow> argv \<Rightarrow> ('b, unit) client" where
  "puppeteer_screenshot_main bk argv =
     (case puppeteer_screenshot_args argv of (url, output) \<Rightarrow>
       pthen
         (if \<not> js_truthy url \<or> \<not> js_truthy output
          then pthen (console_error puppeteer_screenshot_usage) (process_exit 1)
          else ret ())
         (pbind (puppeteer_launch bk default_launch_opts) (\<lambda>browser.
          try_catch_finally
            (pbind (browser_new_page bk browser) (\<lambda>page.
             pthen (page_goto bk page (js_str url) \<lparr>wait_until = Networkidle2\<rparr>)
             (page_screenshot bk page \<lparr>shot_path = js_str output, full_page = True\<rparr>)))
            (\<lambda>err. pthen (console_error (js_to_string err)) (process_exit 1))
            (browser_close bk browser))))"

definition puppeteer_screenshot_run ::
  "'b puppeteer \<Rightarrow> argv \<Rightarrow> 'b client_state \<Rightarrow> exit_code \<times> 'b client_state" where
  "puppeteer_screenshot_run bk argv = run_main (puppeteer_screenshot_main bk argv)"

section \<open>How a run can go\<close>

text \<open>With both arguments present, the body is the launch followed by the statement.\<close>

definition ps_valid :: "argv \<Rightarrow> bool" where
  "ps_valid argv \<longleftrightarrow> js_truthy (nth_opt argv 2) \<and> js_truthy (nth_opt argv 3)"

lemma puppeteer_screenshot_main_valid:
  "ps_valid argv \<Longrightarrow> puppeteer_screenshot_main bk argv =
     pbind (puppeteer_launch bk default_launch_opts) (\<lambda>browser.
     try_finally (try_catch
       (pbind (browser_new_page bk browser) (\<lambda>page.
        pbind (page_goto bk page (js_str (nth_opt argv 2)) \<lparr>wait_until = Networkidle2\<rparr>) (\<lambda>_.
        page_screenshot bk page \<lparr>shot_path = js_str (nth_opt argv 3), full_page = True\<rparr>)))
       (\<lambda>err. pthen (console_error (js_to_string err)) (process_exit 1)))
       (browser_close bk browser))"
  by (simp add: puppeteer_screenshot_main_def puppeteer_screenshot_args_def ps_valid_def
      try_catch_finally_def proc_simps)

lemma puppeteer_screenshot_run_cases [consumes 1,
    case_names usage launch_fail page_fail goto_fail shot_fail close_fail success]:
  assumes run: "puppeteer_screenshot_run bk argv s = (c, s')"
  obtains
    (usage) "\<not> ps_valid argv" "c = 1"
      "s' = s\<lparr>stderr := stderr s @ [Text puppeteer_screenshot_usage]\<rparr>"
  | (launch_fail) e where "ps_valid argv" "c = 1"
      "api_log s' = api_log s @ [(Launch default_launch_opts, RFail e)]"
      "stderr s' = stderr s @ [Uncaught e]"
  | (page_fail) b e where "ps_valid argv" "c = 1"
      "api_log s' = api_log s @ [(Launch default_launch_opts, RBrowser b), (NewPage b, RFail e)]"
      "stderr s' = stderr s @ [Text (js_to_string e)]"
  | (goto_fail) b p e where "ps_valid argv" "c = 1"
      "api_log s' = api_log s @ [(Launch default_launch_opts, RBrowser b), (NewPage b, RPage p),
         (Goto p (js_str (nth_opt argv 2)) \<lparr>wait_until = Networkidle2\<rparr>, RFail e)]"
      "stderr s' = stderr s @ [Text (js_to_string e)]"
  | (shot_fail) b p e where "ps_valid argv" "c = 1"
      "api_log s' = api_log s @ [(Launch default_launch_opts, RBrowser b), (NewPage b, RPage p),
         (Goto p (js_str (nth_opt argv 2)) \<lparr>wait_until = Networkidle2\<rparr>, RDone),
         (Screenshot p \<lparr>shot_path = js_str (nth_opt argv 3), full_page = True\<rparr>, RFail e)]"
      "stderr s' = stderr s @ [Text (js_to_string e)]"
  | (close_fail) b p e where "ps_valid argv" "c = 1"
      "api_log s' = api_log s @ [(Launch default_launch_opts, RBrowser b), (NewPage b, RPage p),
         (Goto p (js_str (nth_opt argv 2)) \<lparr>wait_until = Networkidle2\<rparr>, RDone),
         (Screenshot p \<lparr>shot_path = js_str (nth_opt argv 3), full_page = True\<rparr>, RDone),
         (Close b, RFail e)]"
      "stderr s' = stderr s @ [Uncaught e]"
  | (success) b p where "ps_valid argv" "c = 0"
      "api_log s' = api_log s @ [(Launch default_launch_opts, RBrowser b), (NewPage b, RPage p),
         (Goto p (js_str (nth_opt argv 2)) \<lparr>wait_until = Networkidle2\<rparr>, RDone),
         (Screenshot p \<lparr>shot_path = js_str (nth_opt argv 3), full_page = True\<rparr>, RDone),
         (Close b, RDone)]"
      "stderr s' = stderr s"
proof (cases "ps_valid argv")
  case False
  with run show ?thesis
    by (intro usage) (auto simp: ps_valid_def puppeteer_screenshot_run_def puppeteer_screenshot_main_def
        puppeteer_screenshot_args_def proc_simps)
next
  case True
  from run show ?thesis
    unfolding puppeteer_screenshot_run_def puppeteer_screenshot_main_valid [OF True] api_wrappers
    by (auto elim!: run_main_E api_call_elims try_elims simp: True proc_simps intro: that)
      (fastforce intro: that simp: True)+
qed

text \<open>Evaluating a run on a concrete backend and command line.\<close>

lemmas puppeteer_screenshot_eval =
  puppeteer_screenshot_run_def puppeteer_screenshot_main_def puppeteer_screenshot_args_def
  default_launch_opts_def try_catch_finally_def try_finally_def try_catch_def
  run_main_def api_simps proc_simps mock_simps

section \<open>Properties\<close>

text \<open>
  C7. When the URL or the output path is missing or empty, the script writes its
  usage line to standard error and exits with code 1 before any call to the browser
  library.
\<close>

theorem puppeteer_screenshot_usage_error:
  "\<not> js_truthy (nth_opt argv 2) \<or> \<not> js_truthy (nth_opt argv 3) \<Longrightarrow>
   puppeteer_screenshot_run bk argv s = (1, s\<lparr>stderr := stderr s @ [Text puppeteer_screenshot_usage]\<rparr>)"
  by (auto simp: puppeteer_screenshot_run_def puppeteer_screenshot_main_def
      puppeteer_screenshot_args_def proc_simps)

theorem puppeteer_screenshot_usage_error_witness:
  "\<not> js_truthy (nth_opt [''node'', ''puppeteer_screenshot.js'', ''https://example.com''] 3) \<and>
   puppeteer_screenshot_run mock_backend [''node'', ''puppeteer_screenshot.js'', ''https://example.com'']
     (client_init (mock_init None)) =
     (1, (client_init (mock_init None))\<lparr>stderr := [Text puppeteer_screenshot_usage]\<rparr>)"
  using puppeteer_screenshot_usage_error [of "[''node'', ''puppeteer_screenshot.js'', ''https://example.com'']"
      mock_backend "client_init (mock_init None)"]
  by (simp add: client_init_def)

text \<open>
  C8. A run that exits with code 0 made exactly five successful calls in order:
  launch with the default options, open a page on that browser, navigate it to the
  URL waiting for \<open>networkidle2\<close>, save a full-page screenshot to the output path,
  close the same browser; and it wrote nothing to standard error.
\<close>

theorem puppeteer_screenshot_success_log:
  "puppeteer_screenshot_run bk argv s = (0, s') \<Longrightarrow>
   \<exists>b p. api_log s' = api_log s @
     [(Launch default_launch_opts, RBrowser b), (NewPage b, RPage p),
      (Goto p (js_str (nth_opt argv 2)) \<lparr>wait_until = Networkidle2\<rparr>, RDone),
      (Screenshot p \<lparr>shot_path = js_str (nth_opt argv 3), full_page = True\<rparr>, RDone),
      (Close b, RDone)]
   \<and> stderr s' = stderr s"
  by (cases rule: puppeteer_screenshot_run_cases) auto

theorem puppeteer_screenshot_success_log_witness:
  "fst (puppeteer_screenshot_run mock_backend
      [''node'', ''puppeteer_screenshot.js'', ''https://example.com'', ''out.png''] (client_init (mock_init None))) = 0 \<and>
   (\<exists>b p. api_log (snd (puppeteer_screenshot_run mock_backend
      [''node'', ''puppeteer_screenshot.js'', ''https://example.com'', ''out.png''] (client_init (mock_init None)))) =
     [(Launch default_launch_opts, RBrowser b), (NewPage b, RPage p),
      (Goto p ''https://example.com'' \<lparr>wait_until = Networkidle2\<rparr>, RDone),
      (Screenshot p \<lparr>shot_path = ''out.png'', full_page = True\<rparr>, RDone),
      (Close b, RDone)])"
  using puppeteer_screenshot_success_log [of mock_backend
      "[''node'', ''puppeteer_screenshot.js'', ''https://example.com'', ''out.png'']"
      "client_init (mock_init None)"]
  by (simp add: puppeteer_screenshot_eval)

text \<open>
  C9. The \<open>finally\<close> block does not release the browser on the error path: when
  opening the page, navigating or capturing is rejected with an error \<open>e\<close>, the
  \<open>catch\<close> block prints \<open>e.toString()\<close> and \<open>process.exit(1)\<close> ends the process,
  so the run exits with code 1 and makes no close call.
\<close>

theorem puppeteer_screenshot_catch_skips_finally:
  "puppeteer_screenshot_run bk argv s = (c, s') \<Longrightarrow> api_log s' = api_log s @ new \<Longrightarrow>
   (x, RFail e) \<in> set new \<Longrightarrow> stage_of x \<in> {SNewPage, SGoto, SScreenshot} \<Longrightarrow>
   c = 1 \<and> close_count new = 0 \<and> stderr s' = stderr s @ [Text (js_to_string e)]"
  by (cases rule: puppeteer_screenshot_run_cases) auto

theorem puppeteer_screenshot_catch_skips_finally_witness:
  "(Goto (Page 1) ''https://bad.invalid'' \<lparr>wait_until = Networkidle2\<rparr>, RFail (mock_error SGoto))
     \<in> set (api_log (snd (puppeteer_screenshot_run mock_backend
       [''node'', ''puppeteer_screenshot.js'', ''https://bad.invalid'', ''out.png''] (client_init (mock_init (Some SGoto)))))) \<and>
   fst (puppeteer_screenshot_run mock_backend
       [''node'', ''puppeteer_screenshot.js'', ''https://bad.invalid'', ''out.png''] (client_init (mock_init (Some SGoto)))) = 1 \<and>
   close_count (api_log (snd (puppeteer_screenshot_run mock_backend
       [''node'', ''puppeteer_screenshot.js'', ''https://bad.invalid'', ''out.png''] (client_init (mock_init (Some SGoto)))))) = 0 \<and>
   stderr (snd (puppeteer_screenshot_run mock_backend
       [''node'', ''puppeteer_screenshot.js'', ''https://bad.invalid'', ''out.png''] (client_init (mock_init (Some SGoto)))))
     = [Text ''Error: net::ERR_NAME_NOT_RESOLVED'']"
  using puppeteer_screenshot_catch_skips_finally [of mock_backend
      "[''node'', ''puppeteer_screenshot.js'', ''https://bad.invalid'', ''out.png'']"
      "client_init (mock_init (Some SGoto))" _ _ _
      "Goto (Page 1) ''https://bad.invalid'' \<lparr>wait_until = Networkidle2\<rparr>" "mock_error SGoto"]
  by (simp add: puppeteer_screenshot_eval)

text \<open>
  C10. A failing launch is not handled: \<open>puppeteer.launch()\<close> is outside the
  \<open>try\<close>, so its rejection ends the process as an unhandled rejection (exit code 1,
  Node's report on standard error instead of the one-line message), after that one
  call and no other.
\<close>

theorem puppeteer_screenshot_launch_unhandled:
  "puppeteer_screenshot_run bk argv s = (c, s') \<Longrightarrow> api_log s' = api_log s @ new \<Longrightarrow>
   failed_at SLaunch new \<Longrightarrow>
   c = 1 \<and> (\<exists>e. new = [(Launch default_launch_opts, RFail e)] \<and> stderr s' = stderr s @ [Uncaught e])"
  by (cases rule: puppeteer_screenshot_run_cases) auto

theorem puppeteer_screenshot_launch_unhandled_witness:
  "failed_at SLaunch (api_log (snd (puppeteer_screenshot_run mock_backend
       [''node'', ''puppeteer_screenshot.js'', ''https://example.com'', ''out.png''] (client_init (mock_init (Some SLaunch)))))) \<and>
   fst (puppeteer_screenshot_run mock_backend
       [''node'', ''puppeteer_screenshot.js'', ''https://example.com'', ''out.png''] (client_init (mock_init (Some SLaunch)))) = 1 \<and>
   stderr (snd (puppeteer_screenshot_run mock_backend
       [''node'', ''puppeteer_screenshot.js'', ''https://example.com'', ''out.png''] (client_init (mock_init (Some SLaunch)))))
     = [Uncaught (mock_error SLaunch)]"
  using puppeteer_screenshot_launch_unhandled [of mock_backend
      "[''node'', ''puppeteer_screenshot.js'', ''https://example.com'', ''out.png'']"
      "client_init (mock_init (Some SLaunch))"]
  by (simp add: puppeteer_screenshot_eval)

text \<open>
  C11. A failing \<open>browser.close()\<close> in the \<open>finally\<close> block turns a completed
  capture into a failed run: the screenshot call succeeded, yet the process exits
  with code 1 on an unhandled rejection.
\<close>

theorem puppeteer_screenshot_close_failure:
  "puppeteer_screenshot_run bk argv s = (c, s') \<Longrightarrow> api_log s' = api_log s @ new \<Longrightarrow>
   failed_at SClose new \<Longrightarrow>
   c = 1 \<and> (\<exists>p opts. (Screenshot p opts, RDone) \<in> set new) \<and> (\<exists>e. stderr s' = stderr s @ [Uncaught e])"
  by (cases rule: puppeteer_screenshot_run_cases) auto

theorem puppeteer_screenshot_close_failure_witness:
  "failed_at SClose (api_log (snd (puppeteer_screenshot_run mock_backend
       [''node'', ''puppeteer_screenshot.js'', ''https://example.com'', ''out.png''] (client_init (mock_init (Some SClose)))))) \<and>
   fst (puppeteer_screenshot_run mock_backend
       [''node'', ''puppeteer_screenshot.js'', ''https://example.com'', ''out.png''] (client_init (mock_init (Some SClose)))) = 1 \<and>
   files (backend (snd (puppeteer_screenshot_run mock_backend
       [''node'', ''puppeteer_screenshot.js'', ''https://example.com'', ''out.png''] (client_init (mock_init (Some SClose))))))
     ''out.png'' = Some ''https://example.com''"
  using puppeteer_screenshot_close_failure [of mock_backend
      "[''node'', ''puppeteer_screenshot.js'', ''https://example.com'', ''out.png'']"
      "client_init (mock_init (Some SClose))"]
  by (simp add: puppeteer_screenshot_eval)

end
