(* ===== verification/Capture_Spec.thy ===== *)
theory Capture_Spec
  imports Mock_Browser
begin

text \<open>
  The contract the spec states for the Capture Command (sections 3, 4, 7 and 9),
  written as a program over the same Puppeteer interface, so that the scripts can be
  compared with it call by call. A Capture Request carries the target URL, the output
  path, the launch options, the navigation wait condition and the full-page flag.
  The contract: fail fast with a usage error when the URL or the output path is
  empty, before any resource is acquired; acquire a browser; open a page, navigate
  and capture; release the browser unconditionally, exactly once, as a
  try/finally-equivalent; report any failure of steps 1 to 4 as its stringified error
  on the error stream and complete with 1. A failing release is not among the
  spec's errors: the contract ignores its result.
\<close>

record capture_request =
  target_url :: string
  output_path :: string
  req_launch :: launch_opts
  req_wait :: wait_event
  req_full_page :: bool

definition capture_valid :: "capture_request \<Rightarrow> bool" where
  "capture_valid req \<longleftrightarrow> target_url req \<noteq> [] \<and> output_path req \<noteq> []"

definition capture :: "'b puppeteer \<Rightarrow> string \<Rightarrow> capture_request \<Rightarrow> ('b, unit) client" where
  "capture bk usage req =
     (if \<not> capture_valid req
      then pthen (console_error usage) (process_exit 1)
      else try_catch
        (pbind (puppeteer_launch bk (req_launch req)) (\<lambda>browser.
         try_finally
           (pbind (browser_new_page bk browser) (\<lambda>page.
            pthen (page_goto bk page (target_url req) \<lparr>wait_until = req_wait req\<rparr>)
            (page_screenshot bk page \<lparr>shot_path = output_path req, full_page = req_full_page req\<rparr>)))
           (try_catch (browser_close bk browser) (\<lambda>_. ret ()))))
        (\<lambda>e. pthen (console_error (js_to_string e)) (process_exit 1)))"

definition capture_run :: "'b puppeteer \<Rightarrow> string \<Rightarrow> capture_request \<Rightarrow> 'b client_state \<Rightarrow> exit_code \<times> 'b client_state" where
  "capture_run bk usage req = run_main (capture bk usage req)"

text \<open>A command-line value as the request sees it: \<open>undefined\<close> is the empty string.\<close>

fun arg_text :: "string option \<Rightarrow> string" where
  "arg_text None = []"
| "arg_text (Some s) = s"

lemma arg_text_empty_iff [simp]: "arg_text v = [] \<longleftrightarrow> \<not> js_truthy v"
  by (cases v) auto

lemma js_str_arg_text: "js_truthy v \<Longrightarrow> js_str v = arg_text v"
  by (cases v) auto

lemma js_or_arg_text: "js_truthy v \<Longrightarrow> js_or v d = arg_text v"
  by (cases v) auto

lemmas capture_eval =capture_run_def capture_def capture_valid_def try_catch_def try_finally_def

end
