(* ===== verification/Browser_Lifecycle.thy ===== *)
theory Browser_Lifecycle
  imports Puppeteer_Api
begin

text \<open>
  The usage protocol of the Puppeteer objects, as a state machine over the call log:
  a browser is live from the launch that returned it until a successful close; a page
  belongs to the browser it was opened on; \<open>newPage\<close> and \<open>close\<close> need a live
  browser, \<open>goto\<close> and \<open>screenshot\<close> a page of a live browser; a launch returns a
  browser never seen before. A failed close leaves the browser live (the library gives
  no guarantee that the process is gone). \<open>lc_step\<close> is the step relation,
  \<open>lc_trace\<close> its runs over a log, \<open>lc_next\<close> an executable step function equal to it.
  The invariant \<open>lc_inv\<close> (live and closed browsers are apart, nothing is closed twice,
  every page's browser was launched) holds in every reachable state.
\<close>

record lc =
  lc_live :: "browser list"
  lc_closed :: "browser list"
  lc_pages :: "(page \<times> browser) list"

definition lc_init :: lc where
  "lc_init = \<lparr>lc_live = [], lc_closed = [], lc_pages = []\<rparr>"

text \<open>A result an operation without a return value can have.\<close>

fun unit_result :: "result \<Rightarrow> bool" where
  "unit_result RDone = True"
| "unit_result (RFail _) = True"
| "unit_result _ = False"

definition page_live :: "lc \<Rightarrow> page \<Rightarrow> bool" where
  "page_live \<sigma> p \<longleftrightarrow> (\<exists>b. (p, b) \<in> set (lc_pages \<sigma>) \<and> b \<in> set (lc_live \<sigma>))"

inductive lc_step :: "lc \<Rightarrow> call \<times> result \<Rightarrow> lc \<Rightarrow> bool" where
  launch_ok: "b \<notin> set (lc_live \<sigma>) \<Longrightarrow> b \<notin> set (lc_closed \<sigma>) \<Longrightarrow>
    lc_step \<sigma> (Launch opts, RBrowser b) (\<sigma>\<lparr>lc_live := b # lc_live \<sigma>\<rparr>)"
| launch_fail: "lc_step \<sigma> (Launch opts, RFail e) \<sigma>"
| new_page_ok: "b \<in> set (lc_live \<sigma>) \<Longrightarrow>
    lc_step \<sigma> (NewPage b, RPage p) (\<sigma>\<lparr>lc_pages := (p, b) # lc_pages \<sigma>\<rparr>)"
| new_page_fail: "b \<in> set (lc_live \<sigma>) \<Longrightarrow> lc_step \<sigma> (NewPage b, RFail e) \<sigma>"
| goto: "page_live \<sigma> p \<Longrightarrow> unit_result r \<Longrightarrow> lc_step \<sigma> (Goto p url opts, r) \<sigma>"
| screenshot: "page_live \<sigma> p \<Longrightarrow> unit_result r \<Longrightarrow> lc_step \<sigma> (Screenshot p opts, r) \<sigma>"
| close_ok: "b \<in> set (lc_live \<sigma>) \<Longrightarrow>
    lc_step \<sigma> (Close b, RDone) (\<sigma>\<lparr>lc_live := removeAll b (lc_live \<sigma>), lc_closed := b # lc_closed \<sigma>\<rparr>)"
| close_fail: "b \<in> set (lc_live \<sigma>) \<Longrightarrow> lc_step \<sigma> (Close b, RFail e) \<sigma>"

inductive lc_trace :: "lc \<Rightarrow> api_log \<Rightarrow> lc \<Rightarrow> bool" where
  nil: "lc_trace \<sigma> [] \<sigma>"
| cons: "lc_step \<sigma> ev \<sigma>' \<Longrightarrow> lc_trace \<sigma>' evs \<sigma>'' \<Longrightarrow> lc_trace \<sigma> (ev # evs) \<sigma>''"

inductive lc_reachable :: "lc \<Rightarrow> bool" where
  init: "lc_reachable lc_init"
| step: "lc_reachable \<sigma> \<Longrightarrow> lc_step \<sigma> ev \<sigma>' \<Longrightarrow> lc_reachable \<sigma>'"

definition lc_inv :: "lc \<Rightarrow> bool" where
  "lc_inv \<sigma> \<longleftrightarrow>
     set (lc_live \<sigma>) \<inter> set (lc_closed \<sigma>) = {} \<and> distinct (lc_live \<sigma>) \<and> distinct (lc_closed \<sigma>) \<and>
     (\<forall>(p, b) \<in> set (lc_pages \<sigma>). b \<in> set (lc_live \<sigma>) \<or> b \<in> set (lc_closed \<sigma>))"

text \<open>The executable step: \<open>None\<close> for a call the protocol does not allow.\<close>

fun lc_next :: "lc \<Rightarrow> call \<times> result \<Rightarrow> lc option" where
  "lc_next \<sigma> (Launch opts, RBrowser b) =
     (if b \<notin> set (lc_live \<sigma>) \<and> b \<notin> set (lc_closed \<sigma>) then Some (\<sigma>\<lparr>lc_live := b # lc_live \<sigma>\<rparr>) else None)"
| "lc_next \<sigma> (Launch opts, RFail e) = Some \<sigma>"
| "lc_next \<sigma> (NewPage b, RPage p) =
     (if b \<in> set (lc_live \<sigma>) then Some (\<sigma>\<lparr>lc_pages := (p, b) # lc_pages \<sigma>\<rparr>) else None)"
| "lc_next \<sigma> (NewPage b, RFail e) = (if b \<in> set (lc_live \<sigma>) then Some \<sigma> else None)"
| "lc_next \<sigma> (Goto p url opts, r) = (if page_live \<sigma> p \<and> unit_result r then Some \<sigma> else None)"
| "lc_next \<sigma> (Screenshot p opts, r) = (if page_live \<sigma> p \<and> unit_result r then Some \<sigma> else None)"
| "lc_next \<sigma> (Close b, RDone) =
     (if b \<in> set (lc_live \<sigma>)
      then Some (\<sigma>\<lparr>lc_live := removeAll b (lc_live \<sigma>), lc_closed := b # lc_closed \<sigma>\<rparr>) else None)"
| "lc_next \<sigma> (Close b, RFail e) = (if b \<in> set (lc_live \<sigma>) then Some \<sigma> else None)"
| "lc_next \<sigma> ev = None"

fun lc_run :: "lc \<Rightarrow> api_log \<Rightarrow> lc option" where
  "lc_run \<sigma> [] = Some \<sigma>"
| "lc_run \<sigma> (ev # evs) = (case lc_next \<sigma> ev of None \<Rightarrow> None | Some \<sigma>' \<Rightarrow> lc_run \<sigma>' evs)"

inductive_cases lc_step_LaunchE: "lc_step \<sigma> (Launch opts, r) \<sigma>'"
inductive_cases lc_step_CloseE: "lc_step \<sigma> (Close b, r) \<sigma>'"

section \<open>The executable step is the step relation\<close>

lemma lc_step_lc_next: "lc_step \<sigma> ev \<sigma>' \<longleftrightarrow> lc_next \<sigma> ev = Some \<sigma>'"
proof
  assume "lc_step \<sigma> ev \<sigma>'"
  then show "lc_next \<sigma> ev = Some \<sigma>'"
    by (induction rule: lc_step.induct) (auto elim: unit_result.elims)
next
  assume "lc_next \<sigma> ev = Some \<sigma>'"
  then show "lc_step \<sigma> ev \<sigma>'"
    by (induction \<sigma> ev rule: lc_next.induct) (auto intro: lc_step.intros split: if_splits)
qed

lemma lc_trace_lc_run: "lc_trace \<sigma> evs \<sigma>' \<longleftrightarrow> lc_run \<sigma> evs = Some \<sigma>'"
proof
  assume "lc_trace \<sigma> evs \<sigma>'"
  then show "lc_run \<sigma> evs = Some \<sigma>'"
    by (induction rule: lc_trace.induct) (simp_all add: lc_step_lc_next)
next
  assume "lc_run \<sigma> evs = Some \<sigma>'"
  then show "lc_trace \<sigma> evs \<sigma>'"
    by (induction \<sigma> evs rule: lc_run.induct)
      (auto intro: lc_trace.intros simp: lc_step_lc_next split: option.splits)
qed

lemma lc_run_append:
  "lc_run \<sigma> (xs @ ys) = (case lc_run \<sigma> xs of None \<Rightarrow> None | Some \<sigma>' \<Rightarrow> lc_run \<sigma>' ys)"
  by (induction \<sigma> xs rule: lc_run.induct) (auto split: option.splits)

lemma lc_trace_append:
  "lc_trace \<sigma> (xs @ ys) \<sigma>'' \<longleftrightarrow> (\<exists>\<sigma>'. lc_trace \<sigma> xs \<sigma>' \<and> lc_trace \<sigma>' ys \<sigma>'')"
  by (simp add: lc_trace_lc_run lc_run_append split: option.splits)

section \<open>The invariant\<close>

lemma lc_inv_init: "lc_inv lc_init"
  by (simp add: lc_inv_def lc_init_def)

lemma lc_step_inv: "lc_step \<sigma> ev \<sigma>' \<Longrightarrow> lc_inv \<sigma> \<Longrightarrow> lc_inv \<sigma>'"
  by (induction rule: lc_step.induct) (auto simp: lc_inv_def distinct_removeAll)

lemma lc_reachable_inv: "lc_reachable \<sigma> \<Longrightarrow> lc_inv \<sigma>"
  by (induction rule: lc_reachable.induct) (auto intro: lc_inv_init lc_step_inv)

lemma lc_trace_reachable: "lc_trace \<sigma> evs \<sigma>' \<Longrightarrow> lc_reachable \<sigma> \<Longrightarrow> lc_reachable \<sigma>'"
  by (induction rule: lc_trace.induct) (auto intro: lc_reachable.step)

text \<open>
  Safety of a conforming log: no browser is closed twice, and every closed browser
  is no longer live.
\<close>

lemma lc_trace_from_init_inv: "lc_trace lc_init evs \<sigma> \<Longrightarrow> lc_inv \<sigma>"
  by (blast intro: lc_reachable_inv lc_trace_reachable lc_reachable.init)

text \<open>What a single step tells about the browser it names (rule inversion).\<close>

lemma lc_step_close_live: "lc_step \<sigma> (Close b, r) \<sigma>' \<Longrightarrow> b \<in> set (lc_live \<sigma>)"
  by (erule lc_step_CloseE) auto

lemma lc_step_launch_fresh:
  "lc_step \<sigma> (Launch opts, RBrowser b) \<sigma>' \<Longrightarrow> b \<notin> set (lc_live \<sigma>) \<and> b \<notin> set (lc_closed \<sigma>)"
  by (erule lc_step_LaunchE) auto

lemma lc_closed_not_live: "lc_trace lc_init evs \<sigma> \<Longrightarrow> b \<in> set (lc_closed \<sigma>) \<Longrightarrow> b \<notin> set (lc_live \<sigma>)"
  using lc_trace_from_init_inv by (fastforce simp: lc_inv_def)

text \<open>Checking a concrete or symbolic log by running the executable step.\<close>

lemmas lc_eval = lc_trace_lc_run lc_init_def page_live_def lc_inv_def

end
