(* ===== verification/Spec2Isabelle.thy ===== *)
theory Spec2Isabelle
  imports Screenshot Puppeteer_Screenshot Capture_Spec Browser_Lifecycle
begin

text \<open>
  \<^bold>\<open>A verification model of the screenshot scripts of p2xai/nighty-docs.\<close>

  \<^emph>\<open>The program.\<close> Two Node.js command-line scripts take a URL and an output path,
  launch a headless browser through the \<open>puppeteer\<close> library, open a page, navigate
  to the URL waiting for the \<open>networkidle2\<close> condition, save a full-page screenshot
  and close the browser:
  \<^item> \<open>src/website-screenshot/screenshot.js\<close>: URL required, output optional
    (default \<open>screenshot.png\<close>), launch options hard-coded (\<open>headless: 'new'\<close>,
    \<open>--no-sandbox\<close>, \<open>--disable-setuid-sandbox\<close>), no error handling;
  \<^item> \<open>src/example-scripts/webscrape/puppeteer_screenshot.js\<close>: both arguments
    required, default launch options, the three page steps in a
    \<open>try\<close>/\<open>catch\<close>/\<open>finally\<close> whose \<open>catch\<close> prints the error and calls
    \<open>process.exit(1)\<close> and whose \<open>finally\<close> closes the browser.
  The scripts interact with two external parts only: the Puppeteer library (five
  awaited calls) and the Node.js process (arguments, standard error, exit code).

  \<^emph>\<open>The theories.\<close>
  \<^item> \<open>Prelude\<close>: fact collections (\<open>proc_simps\<close>, \<open>api_simps\<close>), the type names
    \<open>argv\<close> and \<open>exit_code\<close>, and \<open>nth_opt\<close>, the read of \<open>process.argv[i]\<close>
    (\<open>None\<close> for \<open>undefined\<close>), with its list lemmas.
  \<^item> \<open>Node_Runtime\<close>: the language and runtime rules the scripts rely on, from the
    ECMAScript and Node.js semantics (not repository code): truthiness, \<open>||\<close>,
    \<open>String()\<close>, \<open>Error.prototype.toString\<close>; an async body as a state-passing
    computation with outcomes \<open>Ret\<close>, \<open>Throw\<close> (rejection) and \<open>Exit\<close>
    (\<open>process.exit\<close>, which ends the process at once and skips every \<open>finally\<close>);
    \<open>try_catch\<close>, \<open>try_finally\<close> with the completion rules; \<open>run_main\<close>, the
    settling of the top-level promise (exit code 0, or 1 with an \<open>Uncaught\<close> report on
    an unhandled rejection, as Node 15 and later do). Elimination rules
    \<open>run_main_E\<close>, \<open>try_catch_E\<close>, \<open>try_finally_E\<close> take a run apart.
  \<^item> \<open>Puppeteer_Api\<close>: the library as an interface, a record \<open>'b puppeteer\<close> of the
    five operations (\<open>launch\<close>, \<open>newPage\<close>, \<open>goto\<close>, \<open>screenshot\<close>, \<open>close\<close>)
    over a backend state \<open>'b\<close> of any type, each returning or rejecting; the client
    state (\<open>stderr\<close>, the call log \<open>api_log\<close> of every call with its result, the
    backend state); the wrappers \<open>puppeteer_launch\<close>, \<open>browser_new_page\<close>,
    \<open>page_goto\<close>, \<open>page_screenshot\<close>, \<open>browser_close\<close>; readings of the log
    (\<open>close_count\<close>, \<open>failed_at\<close>). Every theorem about the scripts holds for every
    backend.
  \<^item> \<open>Mock_Browser\<close>: the mock backend of the spec's section 8 (numbered handles,
    open browsers, the browser of each page, page URLs, written files, one injected
    failing stage; \<open>goto\<close> and \<open>screenshot\<close> reject on a page whose browser
    is closed, as the library does), the concrete input of every witness.
  \<^item> \<open>Screenshot\<close> and \<open>Puppeteer_Screenshot\<close>: one script each, definitions in the
    order of the source (\<open>*_args\<close> lines 4-5 and 5, \<open>*_usage\<close>, launch options,
    \<open>*_main\<close> the async body, \<open>*_run\<close> the whole process), a case rule
    (\<open>*_run_cases\<close>) listing the seven ways a run can go (usage error, rejection at
    each of the five calls, success) with exit code, calls and standard error, and
    the script's properties C1-C11, each proved by that case rule.
  \<^item> \<open>Capture_Spec\<close>: the spec's contract for the Capture Command (sections 3, 4, 7
    and 9) as a program over the same interface: validate, acquire, the three page
    steps, unconditional single release, one-line report and exit 1 on failure.
  \<^item> \<open>Browser_Lifecycle\<close>: the usage protocol of the library's objects as an
    \<^theory_text>\<open>inductive\<close> step relation \<open>lc_step\<close> over logged calls (launch
    gives a fresh live browser, pages belong to live browsers, close needs a live
    browser, a failed close leaves it live), its runs \<open>lc_trace\<close> and reachable
    states, the invariant \<open>lc_inv\<close> by rule induction, and the executable
    \<open>lc_next\<close>/\<open>lc_run\<close> proved equal to the relation.
  \<^item> this theory: the properties that span components (C12-C19): how each script
    refines the contract and exactly where it departs from it, the equivalence of the
    two scripts, the section 8 scenarios on the mock, and the conformance of both
    scripts to the browser lifecycle.

  \<^emph>\<open>What the lemmas show.\<close> Usage errors are detected before any resource is used
  (C1, C7); a successful run makes exactly the five calls in order on one browser and
  one page (C2, C8); exit codes are 0 or 1 and 0 exactly when every call succeeded
  (C4); a run releases at most once and only its own browser (C5); the output default
  (C6). The release guarantee of the spec does not hold in either script: neither
  closes the browser when opening the page, navigating or capturing fails (C3, C9),
  because \<open>screenshot.js\<close> has no handler and the \<open>catch\<close> of
  \<open>puppeteer_screenshot.js\<close> exits before its \<open>finally\<close>. A failing launch is an
  unhandled rejection (C10), a failing close turns a written screenshot into exit 1
  (C11). Against the contract: on every run in which no call fails, each script
  produces exactly the contract's result (C12, C13); on a failed page step the
  contract's log is the script's log followed by one release (C14, C15). The two
  scripts make the same calls up to their launch options and report the same errors up
  to the form of the report (C16). On the mock, every well-formed request ends with
  one file at the output path holding the URL and no browser left open (C17); since
  the mock rejects a capture on a closed browser, this also fixes the order of capture
  and release. Every call log of either script is a run of the browser lifecycle, and it ends with a live browser exactly when the script launched
  one and did not exit with 0 (C18, C19).

  \<^emph>\<open>Bounds and fuel.\<close> There are none: both scripts are straight-line code without
  loops or recursion, so every definition is total and executable without fuel;
  the only unbounded waits (navigation until \<open>networkidle2\<close>, no timeout) are inside
  the library and appear as an operation that either returns or rejects. Exit codes
  are \<open>int\<close>, the argument of \<open>process.exit\<close>.

  \<^emph>\<open>Not modelled.\<close> The Puppeteer library and the browser (navigation, rendering,
  the network-idle heuristic, the pipe to the browser process): only their interface;
  the file system beyond the mock's map from paths to captured URLs; Node's exact
  report text for an unhandled rejection and its behaviour before version 15 (a
  warning and exit code 0); the killing of the browser process by Puppeteer's own
  exit handler, which is not a call of \<open>browser.close()\<close>; concurrency (none: one
  async body, each \<open>await\<close> a suspension with nothing interleaved).

  \<^emph>\<open>Further work.\<close> A library operation that never settles (navigation without a
  timeout), as an option-valued interface, with the theorem that the scripts then
  never exit; the pre-15 unhandled-rejection rule as a runtime parameter, and the exit
  codes each script has under it; the contract's own release-exactly-once property
  over the lifecycle relation.
\<close>

section \<open>The scripts' requests\<close>

text \<open>
  The Capture Request each script builds from its command line: an absent argument is
  the empty string, the options are those the script passes to the library.
\<close>

definition screenshot_request :: "argv \<Rightarrow> capture_request" where
  "screenshot_request argv =
     \<lparr>target_url = arg_text (nth_opt argv 2), output_path = js_or (nth_opt argv 3) ''screenshot.png'',
      req_launch = screenshot_launch_opts, req_wait = Networkidle2, req_full_page = True\<rparr>"

definition puppeteer_screenshot_request :: "argv \<Rightarrow> capture_request" where
  "puppeteer_screenshot_request argv =
     \<lparr>target_url = arg_text (nth_opt argv 2), output_path = arg_text (nth_opt argv 3),
      req_launch = default_launch_opts, req_wait = Networkidle2, req_full_page = True\<rparr>"

text \<open>
  What two runs are compared by: the calls with the launch options forgotten, and the
  error text of each line on standard error, whether \<open>console.error\<close> printed it or
  Node reported it for an unhandled rejection.
\<close>

fun erase_launch_opts :: "call \<times> result \<Rightarrow> call \<times> result" where
  "erase_launch_opts (Launch _, r) = (Launch default_launch_opts, r)"
| "erase_launch_opts e = e"

fun report_text :: "out_line \<Rightarrow> string" where
  "report_text (Text s) = s"
| "report_text (Uncaught e) = js_to_string e"

lemma mock_launch_opts_irrelevant:
  "pp_launch mock_backend screenshot_launch_opts = pp_launch mock_backend default_launch_opts"
  by (rule ext) (simp add: mock_backend_def mock_launch_def)

section \<open>Refinement of the contract\<close>

text \<open>
  C12. On every run of \<open>screenshot.js\<close> in which no library call fails (the usage
  error included), the script's result is exactly the contract's for the request it
  builds: same exit code, same calls, same backend state, same standard error.
\<close>

theorem screenshot_refines_capture:
  "screenshot_run bk argv s = (c, s') \<Longrightarrow> api_log s' = api_log s @ new \<Longrightarrow>
   list_all (\<lambda>(_, r). res_ok r) new \<Longrightarrow>
   capture_run bk screenshot_usage (screenshot_request argv) s = (c, s')"
  unfolding screenshot_run_def screenshot_main_def screenshot_args_def api_wrappers pthen_def
  by (auto elim!: run_main_E api_call_elims simp: proc_simps split: if_splits)
    (auto simp: capture_eval screenshot_request_def js_str_arg_text api_simps proc_simps)

theorem screenshot_refines_capture_witness:
  "list_all (\<lambda>(_, r). res_ok r) (api_log (snd (screenshot_run mock_backend
      [''node'', ''screenshot.js'', ''https://example.com'', ''out.png''] (client_init (mock_init None))))) \<and>
   capture_run mock_backend screenshot_usage
      (screenshot_request [''node'', ''screenshot.js'', ''https://example.com'', ''out.png''])
      (client_init (mock_init None)) =
   screenshot_run mock_backend [''node'', ''screenshot.js'', ''https://example.com'', ''out.png'']
      (client_init (mock_init None))"
  using screenshot_refines_capture [of mock_backend
      "[''node'', ''screenshot.js'', ''https://example.com'', ''out.png'']" "client_init (mock_init None)"]
  by (simp add: screenshot_eval)

text \<open>
  C13. The same for \<open>puppeteer_screenshot.js\<close>: on every run in which no library call
  fails, its result is exactly the contract's for the request it builds.
\<close>

theorem puppeteer_screenshot_refines_capture:
  "puppeteer_screenshot_run bk argv s = (c, s') \<Longrightarrow> api_log s' = api_log s @ new \<Longrightarrow>
   list_all (\<lambda>(_, r). res_ok r) new \<Longrightarrow>
   capture_run bk puppeteer_screenshot_usage (puppeteer_screenshot_request argv) s = (c, s')"
  unfolding puppeteer_screenshot_run_def puppeteer_screenshot_main_def puppeteer_screenshot_args_def
    api_wrappers pthen_def try_catch_finally_def
  by (auto elim!: run_main_E api_call_elims try_elims simp: proc_simps split: if_splits)
    (auto simp: capture_eval puppeteer_screenshot_request_def js_str_arg_text api_simps proc_simps)

theorem puppeteer_screenshot_refines_capture_witness:
  "list_all (\<lambda>(_, r). res_ok r) (api_log (snd (puppeteer_screenshot_run mock_backend
      [''node'', ''puppeteer_screenshot.js'', ''https://example.com'', ''out.png''] (client_init (mock_init None))))) \<and>
   capture_run mock_backend puppeteer_screenshot_usage
      (puppeteer_screenshot_request [''node'', ''puppeteer_screenshot.js'', ''https://example.com'', ''out.png''])
      (client_init (mock_init None)) =
   puppeteer_screenshot_run mock_backend [''node'', ''puppeteer_screenshot.js'', ''https://example.com'', ''out.png'']
      (client_init (mock_init None))"
  using puppeteer_screenshot_refines_capture [of mock_backend
      "[''node'', ''puppeteer_screenshot.js'', ''https://example.com'', ''out.png'']" "client_init (mock_init None)"]
  by (simp add: puppeteer_screenshot_eval)

section \<open>Where the scripts depart from the contract\<close>

text \<open>
  C14. When opening the page, navigating or capturing fails in
  \<open>puppeteer_screenshot.js\<close>, the contract ends with the same exit code and the same
  standard error, but its log is the script's log followed by one more call: the
  release of the browser, which the script never makes.
\<close>

theorem puppeteer_screenshot_release_missing:
  "puppeteer_screenshot_run bk argv s = (c, s1) \<Longrightarrow> api_log s1 = api_log s @ new \<Longrightarrow>
   (x, RFail e) \<in> set new \<Longrightarrow> stage_of x \<in> {SNewPage, SGoto, SScreenshot} \<Longrightarrow>
   \<exists>b r s2. capture_run bk puppeteer_screenshot_usage (puppeteer_screenshot_request argv) s = (c, s2) \<and>
     api_log s2 = api_log s1 @ [(Close b, r)] \<and> stderr s2 = stderr s1"
  unfolding puppeteer_screenshot_run_def puppeteer_screenshot_main_def puppeteer_screenshot_args_def
    api_wrappers pthen_def try_catch_finally_def
  by (auto elim!: run_main_E api_call_elims try_elims simp: proc_simps split: if_splits)
    (auto simp: capture_eval run_main_def puppeteer_screenshot_request_def js_str_arg_text api_simps proc_simps
      api_call_def split: prod.splits sum.splits outcome.splits)

theorem puppeteer_screenshot_release_missing_witness:
  "(Screenshot (Page 1) \<lparr>shot_path = ''out.png'', full_page = True\<rparr>, RFail (mock_error SScreenshot))
     \<in> set (api_log (snd (puppeteer_screenshot_run mock_backend
       [''node'', ''puppeteer_screenshot.js'', ''https://example.com'', ''out.png''] (client_init (mock_init (Some SScreenshot)))))) \<and>
   api_log (snd (capture_run mock_backend puppeteer_screenshot_usage
       (puppeteer_screenshot_request [''node'', ''puppeteer_screenshot.js'', ''https://example.com'', ''out.png''])
       (client_init (mock_init (Some SScreenshot))))) =
   api_log (snd (puppeteer_screenshot_run mock_backend
       [''node'', ''puppeteer_screenshot.js'', ''https://example.com'', ''out.png''] (client_init (mock_init (Some SScreenshot)))))
     @ [(Close (Browser 0), RDone)]"
  using puppeteer_screenshot_release_missing [of mock_backend
      "[''node'', ''puppeteer_screenshot.js'', ''https://example.com'', ''out.png'']"
      "client_init (mock_init (Some SScreenshot))" _ _ _
      "Screenshot (Page 1) \<lparr>shot_path = ''out.png'', full_page = True\<rparr>" "mock_error SScreenshot"]
  by (simp add: puppeteer_screenshot_eval capture_eval puppeteer_screenshot_request_def)

text \<open>
  C15. The same departure in \<open>screenshot.js\<close>: after a failed page step the contract
  releases the browser once more than the script does, and the error reaches standard
  error as Node's unhandled-rejection report instead of the contract's one-line message.
\<close>

theorem screenshot_release_missing:
  "screenshot_run bk argv s = (c, s1) \<Longrightarrow> api_log s1 = api_log s @ new \<Longrightarrow>
   (x, RFail e) \<in> set new \<Longrightarrow> stage_of x \<in> {SNewPage, SGoto, SScreenshot} \<Longrightarrow>
   \<exists>b r s2. capture_run bk screenshot_usage (screenshot_request argv) s = (c, s2) \<and>
     api_log s2 = api_log s1 @ [(Close b, r)] \<and>
     stderr s1 = stderr s @ [Uncaught e] \<and> stderr s2 = stderr s @ [Text (js_to_string e)]"
  unfolding screenshot_run_def screenshot_main_def screenshot_args_def api_wrappers pthen_def
  by (auto elim!: run_main_E api_call_elims simp: proc_simps split: if_splits)
    (auto simp: capture_eval run_main_def screenshot_request_def js_str_arg_text api_simps proc_simps
      api_call_def split: prod.splits sum.splits outcome.splits)

theorem screenshot_release_missing_witness:
  "(NewPage (Browser 0), RFail (mock_error SNewPage))
     \<in> set (api_log (snd (screenshot_run mock_backend
       [''node'', ''screenshot.js'', ''https://example.com''] (client_init (mock_init (Some SNewPage)))))) \<and>
   api_log (snd (capture_run mock_backend screenshot_usage
       (screenshot_request [''node'', ''screenshot.js'', ''https://example.com''])
       (client_init (mock_init (Some SNewPage))))) =
   api_log (snd (screenshot_run mock_backend
       [''node'', ''screenshot.js'', ''https://example.com''] (client_init (mock_init (Some SNewPage)))))
     @ [(Close (Browser 0), RDone)]"
  using screenshot_release_missing [of mock_backend
      "[''node'', ''screenshot.js'', ''https://example.com'']"
      "client_init (mock_init (Some SNewPage))" _ _ _ "NewPage (Browser 0)" "mock_error SNewPage"]
  by (simp add: screenshot_eval capture_eval screenshot_request_def)

section \<open>The two scripts compared\<close>

text \<open>
  C16. For a backend that launches alike under both option sets, and a command line
  with both a URL and an output path, the two scripts end with the same exit code and
  the same backend state, make the same calls up to the launch options, and report the
  same error texts: the \<open>try\<close>/\<open>catch\<close>/\<open>finally\<close> of \<open>puppeteer_screenshot.js\<close>
  changes only the form of the report, not the behaviour.
\<close>

theorem variants_equivalent:
  "pp_launch bk screenshot_launch_opts = pp_launch bk default_launch_opts \<Longrightarrow>
   js_truthy (nth_opt argv 2) \<Longrightarrow> js_truthy (nth_opt argv 3) \<Longrightarrow>
   screenshot_run bk argv s = (c, s1) \<Longrightarrow>
   \<exists>s2. puppeteer_screenshot_run bk argv s = (c, s2) \<and> backend s2 = backend s1 \<and>
     map erase_launch_opts (api_log s2) = map erase_launch_opts (api_log s1) \<and>
     map report_text (stderr s2) = map report_text (stderr s1)"
  unfolding screenshot_run_def screenshot_main_def screenshot_args_def api_wrappers pthen_def
  by (auto elim!: run_main_E api_call_elims simp: proc_simps split: if_splits)
    (auto simp: puppeteer_screenshot_run_def puppeteer_screenshot_main_def puppeteer_screenshot_args_def
      try_catch_finally_def try_catch_def try_finally_def run_main_def js_str_arg_text js_or_arg_text
      api_simps proc_simps api_call_def split: prod.splits sum.splits outcome.splits)

theorem variants_equivalent_witness:
  "fst (puppeteer_screenshot_run mock_backend [''node'', ''x.js'', ''https://bad.invalid'', ''out.png'']
      (client_init (mock_init (Some SGoto)))) =
   fst (screenshot_run mock_backend [''node'', ''x.js'', ''https://bad.invalid'', ''out.png'']
      (client_init (mock_init (Some SGoto)))) \<and>
   map report_text (stderr (snd (puppeteer_screenshot_run mock_backend
      [''node'', ''x.js'', ''https://bad.invalid'', ''out.png''] (client_init (mock_init (Some SGoto)))))) =
   [''Error: net::ERR_NAME_NOT_RESOLVED'']"
  using variants_equivalent [OF mock_launch_opts_irrelevant,
      of "[''node'', ''x.js'', ''https://bad.invalid'', ''out.png'']" "client_init (mock_init (Some SGoto))"]
  by (simp add: screenshot_eval puppeteer_screenshot_eval)

section \<open>The spec's scenarios on the mock backend\<close>

text \<open>
  C17. With the mock backend failing nowhere, every command line with a non-empty URL
  and output path makes \<open>puppeteer_screenshot.js\<close> exit with 0, leave exactly one
  file, at the output path, holding the captured URL, no browser open, and nothing on
  standard error.
\<close>

theorem scenario_success_any_input:
  "url \<noteq> [] \<Longrightarrow> out \<noteq> [] \<Longrightarrow>
   puppeteer_screenshot_run mock_backend [n, scr, url, out] (client_init (mock_init None)) = (c, s') \<Longrightarrow>
   c = 0 \<and> files (backend s') = [out \<mapsto> url] \<and> open_browsers (backend s') = [] \<and> stderr s' = []"
  by (auto simp: puppeteer_screenshot_eval)

theorem scenario_success_any_input_witness:
  "files (backend (snd (puppeteer_screenshot_run mock_backend
      [''node'', ''puppeteer_screenshot.js'', ''https://example.com'', ''out.png''] (client_init (mock_init None)))))
    = [''out.png'' \<mapsto> ''https://example.com'']"
  using scenario_success_any_input [of "''https://example.com''" "''out.png''" "''node''"
      "''puppeteer_screenshot.js''" "fst (puppeteer_screenshot_run mock_backend
      [''node'', ''puppeteer_screenshot.js'', ''https://example.com'', ''out.png''] (client_init (mock_init None)))"
      "snd (puppeteer_screenshot_run mock_backend
      [''node'', ''puppeteer_screenshot.js'', ''https://example.com'', ''out.png''] (client_init (mock_init None)))"]
  by simp

section \<open>The scripts and the browser lifecycle\<close>

text \<open>
  C18. Every call log of \<open>screenshot.js\<close> is a run of the browser lifecycle from the
  start state (no page used after its browser closed, nothing closed twice, the
  invariant holds at the end), and the run ends with a live browser exactly when the
  script launched one and did not exit with 0: every failure after the launch leaks
  the browser.
\<close>

theorem screenshot_lifecycle:
  "screenshot_run bk argv s = (c, s') \<Longrightarrow> api_log s' = api_log s @ new \<Longrightarrow>
   \<exists>\<sigma>. lc_trace lc_init new \<sigma> \<and> lc_inv \<sigma> \<and>
     (lc_live \<sigma> = [] \<longleftrightarrow> c = 0 \<or> (\<forall>b. (Launch screenshot_launch_opts, RBrowser b) \<notin> set new))"
  by (cases rule: screenshot_run_cases) (auto simp: lc_eval)

theorem screenshot_lifecycle_witness:
  "\<exists>\<sigma>. lc_trace lc_init (api_log (snd (screenshot_run mock_backend
      [''node'', ''screenshot.js'', ''https://example.com''] (client_init (mock_init (Some SScreenshot)))))) \<sigma> \<and>
    lc_live \<sigma> \<noteq> []"
  using screenshot_lifecycle [OF prod.collapse [symmetric], of mock_backend
      "[''node'', ''screenshot.js'', ''https://example.com'']" "client_init (mock_init (Some SScreenshot))"
      "api_log (snd (screenshot_run mock_backend
        [''node'', ''screenshot.js'', ''https://example.com''] (client_init (mock_init (Some SScreenshot)))))"]
  by (simp add: screenshot_eval) blast

text \<open>
  C19. The same for \<open>puppeteer_screenshot.js\<close>: its call logs follow the browser
  lifecycle, and a run ends with a live browser exactly when it launched one and did
  not exit with 0, although the script has a \<open>finally\<close> block meant to release it.
\<close>

theorem puppeteer_screenshot_lifecycle:
  "puppeteer_screenshot_run bk argv s = (c, s') \<Longrightarrow> api_log s' = api_log s @ new \<Longrightarrow>
   \<exists>\<sigma>. lc_trace lc_init new \<sigma> \<and> lc_inv \<sigma> \<and>
     (lc_live \<sigma> = [] \<longleftrightarrow> c = 0 \<or> (\<forall>b. (Launch default_launch_opts, RBrowser b) \<notin> set new))"
  by (cases rule: puppeteer_screenshot_run_cases) (auto simp: lc_eval)

theorem puppeteer_screenshot_lifecycle_witness:
  "\<exists>\<sigma>. lc_trace lc_init (api_log (snd (puppeteer_screenshot_run mock_backend
      [''node'', ''p.js'', ''https://bad.invalid'', ''out.png''] (client_init (mock_init (Some SGoto)))))) \<sigma> \<and>
    lc_live \<sigma> \<noteq> []"
  using puppeteer_screenshot_lifecycle [OF prod.collapse [symmetric], of mock_backend
      "[''node'', ''p.js'', ''https://bad.invalid'', ''out.png'']" "client_init (mock_init (Some SGoto))"
      "api_log (snd (puppeteer_screenshot_run mock_backend
        [''node'', ''p.js'', ''https://bad.invalid'', ''out.png''] (client_init (mock_init (Some SGoto)))))"]
  by (simp add: puppeteer_screenshot_eval) blast

end
